theory Spec2Isabelle
  imports Main "HOL-Library.Sublist"
begin

section \<open>Python values\<close>

text \<open>
  A Python \<open>str\<close> is a sequence of Unicode code points, and \<open>len\<close> and slicing count
  code points. The en dash of the score line is one code point (8211) but three bytes, so
  text is a list of code points, not of bytes. \<open>u\<close> reads an ASCII literal.
\<close>

type_synonym ustr = "nat list"

definition u :: "string \<Rightarrow> ustr" where
  "u s = map of_char s"

text \<open>
  The values a decoded JSON document holds, as far as the script looks into one: scalars
  (\<open>None\<close>, booleans, integers, text) and objects of scalars. The records of the
  \<open>/teams\<close> list are objects of scalars; a record of the \<open>/games\<close> list holds scalars and
  the two nested team objects. Numbers with a fraction and arrays inside a record are
  outside this model.
\<close>

datatype pyval = PNone | PBool bool | PInt int | PStr ustr

datatype jval = Val pyval | Dict "(ustr \<times> pyval) list"

type_synonym team = "(ustr \<times> pyval) list"
type_synonym game = "(ustr \<times> jval) list"

text \<open>
  What ends a call early. \<open>SystemExit msg code\<close> is \<open>fail(msg, code)\<close>: the message is
  printed and \<open>sys.exit(code)\<close> raised. The three request errors are whatever
  \<open>requests.get\<close>/\<open>requests.post\<close>, \<open>raise_for_status\<close> and \<open>r.json()\<close> raise. The other
  \<open>print\<close> calls of the script are diagnostics and are left out.
\<close>

datatype exn =
    KeyError
  | TypeError
  | AttributeError
  | OverflowError
  | ZoneInfoNotFoundError
  | RequestException
  | HTTPError
  | JSONDecodeError
  | SystemExit ustr nat

definition ebind :: "exn + 'a \<Rightarrow> ('a \<Rightarrow> exn + 'b) \<Rightarrow> exn + 'b" where
  "ebind m f = (case m of Inl e \<Rightarrow> Inl e | Inr v \<Rightarrow> f v)"

definition fail :: "ustr \<Rightarrow> nat \<Rightarrow> exn + 'a" where
  "fail msg code = Inl (SystemExit msg code)"

subsection \<open>Operators on scalars\<close>

text \<open>\<open>bool\<close> is a subclass of \<open>int\<close>: \<open>True\<close> counts as 1 in arithmetic and comparisons.\<close>

fun as_num :: "pyval \<Rightarrow> int option" where
  "as_num (PBool b) = Some (if b then 1 else 0)"
| "as_num (PInt i) = Some i"
| "as_num _ = None"

text \<open>\<open>a == b\<close>: never raises; values of unrelated types are unequal.\<close>

fun py_eq :: "pyval \<Rightarrow> pyval \<Rightarrow> bool" where
  "py_eq PNone PNone = True"
| "py_eq (PStr a) (PStr b) = (a = b)"
| "py_eq a b = (case (as_num a, as_num b) of (Some x, Some y) \<Rightarrow> x = y | _ \<Rightarrow> False)"

text \<open>\<open>a + b\<close>: numbers add, text concatenates, anything else is a \<open>TypeError\<close>.\<close>

fun py_add :: "pyval \<Rightarrow> pyval \<Rightarrow> exn + pyval" where
  "py_add (PStr a) (PStr b) = Inr (PStr (a @ b))"
| "py_add a b = (case (as_num a, as_num b) of (Some x, Some y) \<Rightarrow> Inr (PInt (x + y)) | _ \<Rightarrow> Inl TypeError)"

text \<open>Text is ordered lexicographically by code point.\<close>

fun str_gt :: "ustr \<Rightarrow> ustr \<Rightarrow> bool" where
  "str_gt [] _ = False"
| "str_gt (a # as) [] = True"
| "str_gt (a # as) (b # bs) = (a > b \<or> (a = b \<and> str_gt as bs))"

text \<open>\<open>a > b\<close>: defined between two numbers and between two texts only.\<close>

fun py_gt :: "pyval \<Rightarrow> pyval \<Rightarrow> exn + bool" where
  "py_gt (PStr a) (PStr b) = Inr (str_gt a b)"
| "py_gt a b = (case (as_num a, as_num b) of (Some x, Some y) \<Rightarrow> Inr (x > y) | _ \<Rightarrow> Inl TypeError)"

subsection \<open>Rendering in an f-string\<close>

fun digits :: "nat \<Rightarrow> ustr" where
  "digits n = (if n < 10 then [48 + n] else digits (n div 10) @ [48 + n mod 10])"

declare digits.simps [simp del]

definition str_int :: "int \<Rightarrow> ustr" where
  "str_int i = (if i < 0 then 45 # digits (nat (- i)) else digits (nat i))"

fun py_str :: "pyval \<Rightarrow> ustr" where
  "py_str PNone = u ''None''"
| "py_str (PBool b) = (if b then u ''True'' else u ''False'')"
| "py_str (PInt i) = str_int i"
| "py_str (PStr s) = s"

subsection \<open>Lookups\<close>

text \<open>\<open>d[k]\<close> on a record of the games list, which is an object.\<close>

definition subscript :: "game \<Rightarrow> ustr \<Rightarrow> exn + jval" where
  "subscript d k = (case map_of d k of None \<Rightarrow> Inl KeyError | Some v \<Rightarrow> Inr v)"

text \<open>\<open>d.get(k, default)\<close> on a record of the games list.\<close>

definition get_or :: "game \<Rightarrow> ustr \<Rightarrow> jval \<Rightarrow> jval" where
  "get_or d k dflt = (case map_of d k of None \<Rightarrow> dflt | Some v \<Rightarrow> v)"

text \<open>
  \<open>v[k]\<close> on a field of a game record: a lookup in a nested object; a scalar is not
  subscriptable by a text key (\<open>TypeError\<close>).
\<close>

fun item :: "jval \<Rightarrow> ustr \<Rightarrow> exn + pyval" where
  "item (Dict d) k = (case map_of d k of None \<Rightarrow> Inl KeyError | Some v \<Rightarrow> Inr v)"
| "item (Val _) k = Inl TypeError"

text \<open>\<open>t[k]\<close> and \<open>t.get(k)\<close> on a record of the teams list.\<close>

definition team_item :: "team \<Rightarrow> ustr \<Rightarrow> exn + pyval" where
  "team_item t k = (case map_of t k of None \<Rightarrow> Inl KeyError | Some v \<Rightarrow> Inr v)"

definition team_get :: "team \<Rightarrow> ustr \<Rightarrow> pyval" where
  "team_get t k = (case map_of t k of None \<Rightarrow> PNone | Some v \<Rightarrow> v)"

subsection \<open>\<open>str.lower\<close>\<close>

text \<open>
  \<open>A\<close>..\<open>Z\<close> go to \<open>a\<close>..\<open>z\<close>. Outside ASCII two code points lower to something with an
  ASCII letter in it: the Kelvin sign (8490) to \<open>k\<close>, and capital I with dot (304) to \<open>i\<close>
  followed by the combining dot (775). Every other code point from 128 on lowers to code
  points from 128 on, and is left as it is here: the script only asks whether the lowered
  text is one of three ASCII words.
\<close>

definition lower_cp :: "nat \<Rightarrow> ustr" where
  "lower_cp c =
     (if 65 \<le> c \<and> c \<le> 90 then [c + 32]
      else if c = 8490 then [107]
      else if c = 304 then [105, 775]
      else [c])"

definition lower :: "ustr \<Rightarrow> ustr" where
  "lower s = concat (map lower_cp s)"

text \<open>\<open>v.lower()\<close> on a field of a game record: only text has the method.\<close>

fun lower_method :: "jval \<Rightarrow> exn + ustr" where
  "lower_method (Val (PStr s)) = Inr (lower s)"
| "lower_method _ = Inl AttributeError"

section \<open>Dates\<close>

datatype month = Jan | Feb | Mar | Apr | May | Jun | Jul | Aug | Sep | Oct | Nov | Dec

record date =
  year :: nat
  month :: month
  day :: nat

text \<open>\<open>strftime("%b")\<close> in the C locale, which the script never changes.\<close>

fun strftime_b :: "month \<Rightarrow> ustr" where
  "strftime_b Jan = u ''Jan''"
| "strftime_b Feb = u ''Feb''"
| "strftime_b Mar = u ''Mar''"
| "strftime_b Apr = u ''Apr''"
| "strftime_b May = u ''May''"
| "strftime_b Jun = u ''Jun''"
| "strftime_b Jul = u ''Jul''"
| "strftime_b Aug = u ''Aug''"
| "strftime_b Sep = u ''Sep''"
| "strftime_b Oct = u ''Oct''"
| "strftime_b Nov = u ''Nov''"
| "strftime_b Dec = u ''Dec''"

section \<open>The message formatter\<close>

definition TEAM_ABBR :: ustr where "TEAM_ABBR = u ''OKC''"
definition TEAM_NICK :: ustr where "TEAM_NICK = u ''Thunder''"
definition TEAM_CITY_FULL :: ustr where "TEAM_CITY_FULL = u ''Oklahoma City Thunder''"

definition nl :: ustr where "nl = [10]"
definition en_dash :: ustr where "en_dash = [8211]"

text \<open>
  \<open>format_tweet(game, date_obj, team_id)\<close>. \<open>None\<close> for the game gives \<open>None\<close>. A score that
  is an object fails the comparison \<open>team_score > opp_score\<close> with a \<open>TypeError\<close>, so only
  scalars reach the score line.
\<close>

definition format_tweet :: "game option \<Rightarrow> date \<Rightarrow> pyval \<Rightarrow> exn + ustr option" where
  "format_tweet game date_obj team_id =
    (case game of
       None \<Rightarrow> Inr None
     | Some g \<Rightarrow>
        ebind (subscript g (u ''home_team'')) (\<lambda>home.
        ebind (subscript g (u ''visitor_team'')) (\<lambda>away.
        ebind (subscript g (u ''home_team_score'')) (\<lambda>home_score.
        ebind (subscript g (u ''visitor_team_score'')) (\<lambda>away_score.
        ebind (item home (u ''id'')) (\<lambda>home_id.
        let is_home = py_eq home_id team_id;
            team_score = (if is_home then home_score else away_score);
            opp = (if is_home then away else home);
            opp_score = (if is_home then away_score else home_score)
        in (case (team_score, opp_score) of
              (Val ts, Val os) \<Rightarrow>
                ebind (py_gt ts os) (\<lambda>won.
                let yes_no = (if won then u ''YES'' else u ''NO'');
                    month = strftime_b (month date_obj);
                    date_str = month @ u '' '' @ str_int (int (day date_obj)) @ u '', ''
                               @ str_int (int (year date_obj));
                    venue = (if is_home then u ''vs'' else u ''@'')
                in ebind (item opp (u ''full_name'')) (\<lambda>full_name.
                   let opponent_line = venue @ u '' '' @ py_str full_name
                   in ebind (item opp (u ''name'')) (\<lambda>name.
                      let score_line = TEAM_NICK @ u '' '' @ py_str ts @ u '' '' @ en_dash
                                       @ u '' '' @ py_str os @ u '' '' @ py_str name;
                          tweet = yes_no @ nl @ nl @ date_str @ nl @ opponent_line @ nl @ score_line
                      in Inr (Some (take 280 tweet)))))
            | _ \<Rightarrow> Inl TypeError)))))))"

section \<open>The process and its surroundings\<close>

text \<open>
  The calendar day before a date, which is what subtracting \<open>timedelta(days=1)\<close> from a
  date-time does to its date: the time of day and the zone stay as they are. The first
  day the type has, 1 January of year 1, has no predecessor (\<open>OverflowError\<close>).
\<close>

definition leap_year :: "nat \<Rightarrow> bool" where
  "leap_year y = (y mod 4 = 0 \<and> (y mod 100 \<noteq> 0 \<or> y mod 400 = 0))"

fun prev_month :: "month \<Rightarrow> month" where
  "prev_month Jan = Dec"
| "prev_month Feb = Jan"
| "prev_month Mar = Feb"
| "prev_month Apr = Mar"
| "prev_month May = Apr"
| "prev_month Jun = May"
| "prev_month Jul = Jun"
| "prev_month Aug = Jul"
| "prev_month Sep = Aug"
| "prev_month Oct = Sep"
| "prev_month Nov = Oct"
| "prev_month Dec = Nov"

fun days_in_month :: "nat \<Rightarrow> month \<Rightarrow> nat" where
  "days_in_month y Feb = (if leap_year y then 29 else 28)"
| "days_in_month y Apr = 30"
| "days_in_month y Jun = 30"
| "days_in_month y Sep = 30"
| "days_in_month y Nov = 30"
| "days_in_month y _ = 31"

definition day_before :: "date \<Rightarrow> exn + date" where
  "day_before d =
     (if 1 < day d then Inr (d\<lparr>day := day d - 1\<rparr>)
      else if month d \<noteq> Jan
        then Inr (d\<lparr>month := prev_month (month d), day := days_in_month (year d) (prev_month (month d))\<rparr>)
      else if 1 < year d then Inr \<lparr>year = year d - 1, month = Dec, day = 31\<rparr>
      else Inl OverflowError)"

record datetime =
  on_date :: date
  time_of_day :: nat

definition minus_one_day :: "datetime \<Rightarrow> exn + datetime" where
  "minus_one_day t = ebind (day_before (on_date t)) (\<lambda>d. Inr (t\<lparr>on_date := d\<rparr>))"

text \<open>
  The request a run sends, and the answer to \<open>requests.post\<close>: its status code, its body
  text, and what \<open>r.json().get("data", {}).get("id")\<close> evaluates to.
\<close>

datatype call = GetTeams | GetGames pyval date | PostTweet ustr

record response =
  status_code :: nat
  text_body :: ustr
  json_id :: "exn + pyval"

text \<open>
  Everything a run reads from outside, and the requests it has sent so far.
  \<^item> The environment variables; a variable that is not set is \<open>None\<close>.
  \<^item> \<open>fromisoformat\<close> and \<open>int_of_str\<close> are the runtime's \<open>date.fromisoformat\<close> and \<open>int\<close>
    on text, \<open>None\<close> where they raise \<open>ValueError\<close>; which texts they accept depends on
    the version of the runtime.
  \<^item> \<open>zone_db\<close> tells which zone keys the runtime's time-zone database has, and
    \<open>now_in\<close> is what \<open>datetime.now(tz)\<close> reads for the zone of a key.
  \<^item> \<open>teams_api\<close> is the outcome of the \<open>/teams\<close> request up to
    \<open>r.json().get("data", [])\<close>; \<open>games_api\<close> the same for \<open>/games\<close> with the team id and
    date asked for; \<open>post_api\<close> answers a post of the given text.
  \<^item> \<open>calls\<close> lists the requests sent, oldest first.
\<close>

record world =
  FORCE_DATE :: "ustr option"
  TEAM_ID :: "ustr option"
  API_KEY :: "ustr option"
  API_SECRET :: "ustr option"
  ACCESS_TOKEN :: "ustr option"
  ACCESS_SECRET :: "ustr option"
  fromisoformat :: "ustr \<Rightarrow> date option"
  int_of_str :: "ustr \<Rightarrow> int option"
  zone_db :: "ustr \<Rightarrow> bool"
  now_in :: "ustr \<Rightarrow> datetime"
  teams_api :: "exn + team list"
  games_api :: "pyval \<Rightarrow> date \<Rightarrow> exn + game list"
  post_api :: "ustr \<Rightarrow> exn + response"
  calls :: "call list"

text \<open>Truth value of \<open>os.getenv(...)\<close>: \<open>None\<close> and the empty text are false.\<close>

fun truthy :: "ustr option \<Rightarrow> bool" where
  "truthy None = False"
| "truthy (Some s) = (s \<noteq> [])"

section \<open>Date resolver\<close>

text \<open>
  \<open>ZoneInfo(key)\<close>: the zone of the key, or \<open>ZoneInfoNotFoundError\<close> when the runtime's
  time-zone database does not have it. A zone is stood for by its key.
\<close>

definition ZoneInfo :: "world \<Rightarrow> ustr \<Rightarrow> exn + ustr" where
  "ZoneInfo w key = (if zone_db w key then Inr key else Inl ZoneInfoNotFoundError)"

definition chicago_yesterday_date :: "world \<Rightarrow> exn + date" where
  "chicago_yesterday_date w =
     (case (case FORCE_DATE w of
              Some force \<Rightarrow> if truthy (Some force) then fromisoformat w force else None
            | None \<Rightarrow> None) of
        Some d \<Rightarrow> Inr d
      | None \<Rightarrow>
          ebind (ZoneInfo w (u ''America/Chicago'')) (\<lambda>tz.
          let now_ct = now_in w tz
          in ebind (minus_one_day now_ct) (\<lambda>yday_ct. Inr (on_date yday_ct))))"

section \<open>Team resolver\<close>

text \<open>The scan of the team list, and the \<open>fail\<close> after it.\<close>

fun scan_teams :: "team list \<Rightarrow> exn + pyval" where
  "scan_teams [] =
     fail (u ''Could not resolve team_id for '' @ TEAM_CITY_FULL @ u '' / '' @ TEAM_ABBR) 1"
| "scan_teams (t # ts) =
     (if py_eq (team_get t (u ''abbreviation'')) (PStr TEAM_ABBR)
         \<or> py_eq (team_get t (u ''full_name'')) (PStr TEAM_CITY_FULL)
      then team_item t (u ''id'')
      else scan_teams ts)"

definition resolve_team_id :: "world \<Rightarrow> (exn + pyval) \<times> world" where
  "resolve_team_id w =
     (case (case TEAM_ID w of
              Some env_id \<Rightarrow> if truthy (Some env_id) then int_of_str w env_id else None
            | None \<Rightarrow> None) of
        Some n \<Rightarrow> (Inr (PInt n), w)
      | None \<Rightarrow>
          (let w' = w\<lparr>calls := calls w @ [GetTeams]\<rparr>
           in (case teams_api w of
                 Inl e \<Rightarrow> (Inl e, w')
               | Inr data \<Rightarrow> (scan_teams data, w'))))"

section \<open>Game fetcher\<close>

text \<open>The condition of the \<open>if\<close> in the loop; \<open>or\<close> does not evaluate its right side when the left one holds.\<close>

definition completed :: "game \<Rightarrow> exn + bool" where
  "completed g =
     ebind (lower_method (get_or g (u ''status'') (Val (PStr [])))) (\<lambda>s.
       if s \<in> set [u ''final'', u ''final/ot'', u ''finished''] then Inr True
       else (case (get_or g (u ''home_team_score'') (Val (PInt 0)),
                   get_or g (u ''visitor_team_score'') (Val (PInt 0))) of
               (Val a, Val b) \<Rightarrow> ebind (py_add a b) (\<lambda>total. py_gt total (PInt 0))
             | _ \<Rightarrow> Inl TypeError))"

text \<open>The \<open>for\<close> loop: the first record the condition holds for, \<open>None\<close> when it runs to the end.\<close>

fun first_completed :: "game list \<Rightarrow> exn + game option" where
  "first_completed [] = Inr None"
| "first_completed (g # gs) =
     ebind (completed g) (\<lambda>c. if c then Inr (Some g) else first_completed gs)"

definition fetch_game_for :: "pyval \<Rightarrow> date \<Rightarrow> world \<Rightarrow> (exn + game option) \<times> world" where
  "fetch_game_for team_id date_obj w =
     (let w' = w\<lparr>calls := calls w @ [GetGames team_id date_obj]\<rparr>
      in (case games_api w team_id date_obj of
            Inl e \<Rightarrow> (Inl e, w')
          | Inr data \<Rightarrow>
              (case data of
                 [] \<Rightarrow> (Inr None, w')
               | g0 # _ \<Rightarrow>
                   (ebind (first_completed data) (\<lambda>found.
                      case found of Some g \<Rightarrow> Inr (Some g) | None \<Rightarrow> Inr (Some g0)), w'))))"

section \<open>Publisher\<close>

definition post_to_x :: "ustr \<Rightarrow> world \<Rightarrow> (exn + unit) \<times> world" where
  "post_to_x status_text w =
     (if \<not> list_all truthy [API_KEY w, API_SECRET w, ACCESS_TOKEN w, ACCESS_SECRET w]
      then (fail (u ''Missing one or more Twitter credentials in environment variables.'') 1, w)
      else
        (let w' = w\<lparr>calls := calls w @ [PostTweet status_text]\<rparr>
         in (case post_api w status_text of
               Inl e \<Rightarrow> (Inl e, w')
             | Inr r \<Rightarrow>
                 if 400 \<le> status_code r
                 then (fail (u ''Twitter post failed ['' @ str_int (int (status_code r)) @ u '']: ''
                             @ text_body r) 1, w')
                 else (ebind (json_id r) (\<lambda>tid. Inr ()), w'))))"

section \<open>Orchestrator\<close>

definition main :: "world \<Rightarrow> (exn + unit) \<times> world" where
  "main w =
     (case chicago_yesterday_date w of
        Inl e \<Rightarrow> (Inl e, w)
      | Inr ydate \<Rightarrow>
          (case resolve_team_id w of
             (Inl e, w1) \<Rightarrow> (Inl e, w1)
           | (Inr team_id, w1) \<Rightarrow>
               (case fetch_game_for team_id ydate w1 of
                  (Inl e, w2) \<Rightarrow> (Inl e, w2)
                | (Inr game, w2) \<Rightarrow>
                    (case format_tweet game ydate team_id of
                       Inl e \<Rightarrow> (Inl e, w2)
                     | Inr None \<Rightarrow> (Inr (), w2)
                     | Inr (Some tweet) \<Rightarrow> post_to_x tweet w2))))"

text \<open>
  The exit status of the process: 0 when \<open>main\<close> returns, the code of \<open>sys.exit\<close>, and 1
  for any other exception that nothing catches.
\<close>

fun exit_status :: "exn + unit \<Rightarrow> nat" where
  "exit_status (Inr _) = 0"
| "exit_status (Inl (SystemExit _ code)) = code"
| "exit_status (Inl _) = 1"

section \<open>The data model of the specification\<close>

text \<open>
  The specification's Team and Game, with the short name the formatter also reads. A
  decoded object is a record of the data model when each of these fields is there with
  its type; \<open>decode_game\<close> reads them out, and is \<open>None\<close> for any other object. Fields the
  script does not read may be there too.
\<close>

record team_rec =
  t_id :: int
  t_full_name :: ustr
  t_name :: ustr

record game_rec =
  g_home_team :: team_rec
  g_visitor_team :: team_rec
  g_home_score :: int
  g_visitor_score :: int
  g_status :: ustr

fun p_int :: "pyval \<Rightarrow> int option" where
  "p_int (PInt i) = Some i"
| "p_int _ = None"

fun p_text :: "pyval \<Rightarrow> ustr option" where
  "p_text (PStr s) = Some s"
| "p_text _ = None"

fun j_int :: "jval \<Rightarrow> int option" where
  "j_int (Val v) = p_int v"
| "j_int (Dict _) = None"

fun j_text :: "jval \<Rightarrow> ustr option" where
  "j_text (Val v) = p_text v"
| "j_text (Dict _) = None"

fun decode_team :: "jval \<Rightarrow> team_rec option" where
  "decode_team (Dict d) =
     Option.bind (Option.bind (map_of d (u ''id'')) p_int) (\<lambda>i.
     Option.bind (Option.bind (map_of d (u ''full_name'')) p_text) (\<lambda>f.
     Option.bind (Option.bind (map_of d (u ''name'')) p_text) (\<lambda>n.
       Some \<lparr>t_id = i, t_full_name = f, t_name = n\<rparr>)))"
| "decode_team (Val _) = None"

definition decode_game :: "game \<Rightarrow> game_rec option" where
  "decode_game g =
     Option.bind (Option.bind (map_of g (u ''home_team'')) decode_team) (\<lambda>h.
     Option.bind (Option.bind (map_of g (u ''visitor_team'')) decode_team) (\<lambda>v.
     Option.bind (Option.bind (map_of g (u ''home_team_score'')) j_int) (\<lambda>hs.
     Option.bind (Option.bind (map_of g (u ''visitor_team_score'')) j_int) (\<lambda>vs.
     Option.bind (Option.bind (map_of g (u ''status'')) j_text) (\<lambda>st.
       Some \<lparr>g_home_team = h, g_visitor_team = v, g_home_score = hs,
             g_visitor_score = vs, g_status = st\<rparr>)))))"

definition is_game_record :: "game \<Rightarrow> bool" where
  "is_game_record g = (decode_game g \<noteq> None)"

text \<open>
  The message of the specification's template for a game of the data model: the side the
  resolved team is on by its id, the strict comparison of the scores, and the five lines.
\<close>

definition is_home_side :: "game_rec \<Rightarrow> int \<Rightarrow> bool" where
  "is_home_side G tid = (t_id (g_home_team G) = tid)"

definition team_score_of :: "game_rec \<Rightarrow> int \<Rightarrow> int" where
  "team_score_of G tid = (if is_home_side G tid then g_home_score G else g_visitor_score G)"

definition opp_score_of :: "game_rec \<Rightarrow> int \<Rightarrow> int" where
  "opp_score_of G tid = (if is_home_side G tid then g_visitor_score G else g_home_score G)"

definition opponent_of :: "game_rec \<Rightarrow> int \<Rightarrow> team_rec" where
  "opponent_of G tid = (if is_home_side G tid then g_visitor_team G else g_home_team G)"

definition date_text :: "date \<Rightarrow> ustr" where
  "date_text d = strftime_b (month d) @ u '' '' @ str_int (int (day d)) @ u '', '' @ str_int (int (year d))"

definition template_text :: "game_rec \<Rightarrow> date \<Rightarrow> int \<Rightarrow> ustr" where
  "template_text G d tid =
     (if opp_score_of G tid < team_score_of G tid then u ''YES'' else u ''NO'') @ nl @ nl
     @ date_text d @ nl
     @ (if is_home_side G tid then u ''vs '' else u ''@ '') @ t_full_name (opponent_of G tid) @ nl
     @ u ''Thunder '' @ str_int (team_score_of G tid) @ u '' '' @ en_dash @ u '' ''
     @ str_int (opp_score_of G tid) @ u '' '' @ t_name (opponent_of G tid)"

text \<open>
  The specification's test for a completed game: the status, lowered, is one of the three
  words, or the two scores add up to more than zero.
\<close>

definition qualifies :: "game_rec \<Rightarrow> bool" where
  "qualifies G =
     (lower (g_status G) = u ''final'' \<or> lower (g_status G) = u ''final/ot''
      \<or> lower (g_status G) = u ''finished'' \<or> 0 < g_home_score G + g_visitor_score G)"

definition record_qualifies :: "game \<Rightarrow> bool" where
  "record_qualifies g = (case decode_game g of Some G \<Rightarrow> qualifies G | None \<Rightarrow> False)"

text \<open>The specification's test for the team record that is sought.\<close>

definition team_matches :: "team \<Rightarrow> bool" where
  "team_matches t =
     (map_of t (u ''abbreviation'') = Some (PStr (u ''OKC''))
      \<or> map_of t (u ''full_name'') = Some (PStr (u ''Oklahoma City Thunder'')))"

text \<open>The integer the \<open>TEAM_ID\<close> variable parses to, and the date \<open>FORCE_DATE\<close> parses to, if any.\<close>

definition team_id_override :: "world \<Rightarrow> int option" where
  "team_id_override w = (case TEAM_ID w of None \<Rightarrow> None | Some s \<Rightarrow> int_of_str w s)"

definition force_date_override :: "world \<Rightarrow> date option" where
  "force_date_override w = (case FORCE_DATE w of None \<Rightarrow> None | Some s \<Rightarrow> fromisoformat w s)"


definition date_min :: date where
  "date_min = \<lparr>year = 1, month = Jan, day = 1\<rparr>"

text \<open>
  The dates the runtime's \<open>date\<close> type holds, and the day number its arithmetic works on
  (\<open>date.toordinal\<close>, 1 for 1 January of year 1): the days before the year, the days
  before the month, and the day of the month. \<open>wall_clock\<close> counts a date-time in
  microseconds on that scale; \<open>timedelta(days=1)\<close> is 24 hours of them.
\<close>

definition valid_date :: "date \<Rightarrow> bool" where
  "valid_date d =
     (1 \<le> year d \<and> year d \<le> 9999 \<and> 1 \<le> day d \<and> day d \<le> days_in_month (year d) (month d))"

definition days_before_year :: "nat \<Rightarrow> nat" where
  "days_before_year y =
     (let n = y - 1 in n * 365 + n div 4 - n div 100 + n div 400)"

fun month_offset :: "month \<Rightarrow> nat" where
  "month_offset Jan = 0"
| "month_offset Feb = 31"
| "month_offset Mar = 59"
| "month_offset Apr = 90"
| "month_offset May = 120"
| "month_offset Jun = 151"
| "month_offset Jul = 181"
| "month_offset Aug = 212"
| "month_offset Sep = 243"
| "month_offset Oct = 273"
| "month_offset Nov = 304"
| "month_offset Dec = 334"

definition days_before_month :: "nat \<Rightarrow> month \<Rightarrow> nat" where
  "days_before_month y m =
     month_offset m + (if m \<noteq> Jan \<and> m \<noteq> Feb \<and> leap_year y then 1 else 0)"

definition toordinal :: "date \<Rightarrow> nat" where
  "toordinal d = days_before_year (year d) + days_before_month (year d) (month d) + day d"

definition day_micros :: nat where
  "day_micros = 24 * 60 * 60 * 1000000"

definition wall_clock :: "datetime \<Rightarrow> nat" where
  "wall_clock t = toordinal (on_date t) * day_micros + time_of_day t"

definition clock_reading :: "world \<Rightarrow> datetime" where
  "clock_reading w = now_in w (u ''America/Chicago'')"

section \<open>Sample inputs\<close>

definition team_obj :: "int \<Rightarrow> ustr \<Rightarrow> ustr \<Rightarrow> ustr \<Rightarrow> team" where
  "team_obj i abbr full short =
     [(u ''id'', PInt i), (u ''abbreviation'', PStr abbr),
      (u ''full_name'', PStr full), (u ''name'', PStr short)]"

definition game_obj :: "ustr \<Rightarrow> team \<Rightarrow> int \<Rightarrow> team \<Rightarrow> int \<Rightarrow> game" where
  "game_obj st h hs v vs =
     [(u ''status'', Val (PStr st)), (u ''home_team'', Dict h), (u ''home_team_score'', Val (PInt hs)),
      (u ''visitor_team'', Dict v), (u ''visitor_team_score'', Val (PInt vs))]"

definition thunder :: team where
  "thunder = team_obj 25 (u ''OKC'') (u ''Oklahoma City Thunder'') (u ''Thunder'')"

definition nuggets :: team where
  "nuggets = team_obj 8 (u ''DEN'') (u ''Denver Nuggets'') (u ''Nuggets'')"

definition long_name_team :: team where
  "long_name_team = team_obj 8 (u ''LNG'') (replicate 300 65) (u ''Longs'')"

definition jan15 :: date where
  "jan15 = \<lparr>year = 2024, month = Jan, day = 15\<rparr>"

definition home_win :: game where
  "home_win = game_obj (u ''Final'') thunder 120 nuggets 100"

definition away_loss :: game where
  "away_loss = game_obj (u ''Final'') nuggets 108 thunder 101"

definition tied :: game where
  "tied = game_obj (u ''Final'') thunder 99 nuggets 99"

definition long_name_game :: game where
  "long_name_game = game_obj (u ''Final'') thunder 120 long_name_team 100"

definition in_progress :: game where
  "in_progress = game_obj (u ''3rd Qtr'') thunder 61 nuggets 58"

definition not_started :: game where
  "not_started = game_obj (u ''7:00 pm ET'') thunder 0 nuggets 0"

definition iso_jan15 :: "ustr \<Rightarrow> date option" where
  "iso_jan15 s = (if s = u ''2024-01-15'' then Some jan15 else None)"

definition int_25 :: "ustr \<Rightarrow> int option" where
  "int_25 s = (if s = u ''25'' then Some 25 else None)"

definition quiet_world :: world where
  "quiet_world =
     \<lparr>FORCE_DATE = None, TEAM_ID = None,
      API_KEY = Some (u ''k''), API_SECRET = Some (u ''s''),
      ACCESS_TOKEN = Some (u ''t''), ACCESS_SECRET = None,
      fromisoformat = iso_jan15, int_of_str = int_25,
      zone_db = (\<lambda>key. key = u ''America/Chicago''),
      now_in = (\<lambda>_. \<lparr>on_date = \<lparr>year = 2024, month = Mar, day = 1\<rparr>, time_of_day = 0\<rparr>),
      teams_api = Inr [nuggets, thunder],
      games_api = (\<lambda>_ _. Inr []),
      post_api = (\<lambda>_. Inl RequestException),
      calls = []\<rparr>"

definition no_zone_world :: world where
  "no_zone_world = quiet_world\<lparr>zone_db := (\<lambda>key. False)\<rparr>"

definition year_one_world :: world where
  "year_one_world = quiet_world\<lparr>now_in := (\<lambda>tz. \<lparr>on_date = date_min, time_of_day = 0\<rparr>)\<rparr>"

section \<open>Properties of the formatter\<close>

subsection \<open>Records of the data model, read back\<close>

lemma p_int_Some: "p_int v = Some i \<longleftrightarrow> v = PInt i"
  by (cases v) auto

lemma p_text_Some: "p_text v = Some s \<longleftrightarrow> v = PStr s"
  by (cases v) auto

lemma j_int_Some: "j_int v = Some i \<longleftrightarrow> v = Val (PInt i)"
  by (cases v) (auto simp: p_int_Some)

lemma j_text_Some: "j_text v = Some s \<longleftrightarrow> v = Val (PStr s)"
  by (cases v) (auto simp: p_text_Some)

lemma decode_team_SomeD:
  assumes "decode_team h = Some T"
  shows "\<exists>d. h = Dict d \<and> map_of d (u ''id'') = Some (PInt (t_id T))
           \<and> map_of d (u ''full_name'') = Some (PStr (t_full_name T))
           \<and> map_of d (u ''name'') = Some (PStr (t_name T))"
proof (cases h)
  case (Val v)
  with assms show ?thesis by simp
next
  case (Dict d)
  with assms show ?thesis
    by (auto simp: bind_eq_Some_conv p_int_Some p_text_Some)
qed

lemma decode_game_SomeD:
  assumes "decode_game g = Some G"
  shows "\<exists>h v. map_of g (u ''home_team'') = Some h \<and> decode_team h = Some (g_home_team G)
           \<and> map_of g (u ''visitor_team'') = Some v \<and> decode_team v = Some (g_visitor_team G)
           \<and> map_of g (u ''home_team_score'') = Some (Val (PInt (g_home_score G)))
           \<and> map_of g (u ''visitor_team_score'') = Some (Val (PInt (g_visitor_score G)))
           \<and> map_of g (u ''status'') = Some (Val (PStr (g_status G)))"
  using assms unfolding decode_game_def
  by (auto simp: bind_eq_Some_conv j_int_Some j_text_Some)

lemma format_tweet_record:
  assumes "decode_game g = Some G"
  shows "format_tweet (Some g) d (PInt tid) = Inr (Some (take 280 (template_text G d tid)))"
proof -
  from decode_game_SomeD[OF assms] obtain h v where
    h: "map_of g (u ''home_team'') = Some h" "decode_team h = Some (g_home_team G)" and
    v: "map_of g (u ''visitor_team'') = Some v" "decode_team v = Some (g_visitor_team G)" and
    hs: "map_of g (u ''home_team_score'') = Some (Val (PInt (g_home_score G)))" and
    vs: "map_of g (u ''visitor_team_score'') = Some (Val (PInt (g_visitor_score G)))"
    by blast
  from decode_team_SomeD[OF h(2)] obtain hd where
    hd: "h = Dict hd" "map_of hd (u ''id'') = Some (PInt (t_id (g_home_team G)))"
        "map_of hd (u ''full_name'') = Some (PStr (t_full_name (g_home_team G)))"
        "map_of hd (u ''name'') = Some (PStr (t_name (g_home_team G)))"
    by blast
  from decode_team_SomeD[OF v(2)] obtain vd where
    vd: "v = Dict vd" "map_of vd (u ''id'') = Some (PInt (t_id (g_visitor_team G)))"
        "map_of vd (u ''full_name'') = Some (PStr (t_full_name (g_visitor_team G)))"
        "map_of vd (u ''name'') = Some (PStr (t_name (g_visitor_team G)))"
    by blast
  have sp: "u ''vs '' = u ''vs'' @ u '' ''" "u ''@ '' = u ''@'' @ u '' ''"
           "u ''Thunder '' = u ''Thunder'' @ u '' ''"
    by (simp_all add: u_def)
  show ?thesis
  proof (cases "t_id (g_home_team G) = tid")
    case True
    then show ?thesis
      using h(1) v(1) hs vs hd vd
      by (simp add: format_tweet_def ebind_def subscript_def template_text_def is_home_side_def
          team_score_of_def opp_score_of_def opponent_of_def date_text_def TEAM_NICK_def sp Let_def del: take_append)
  next
    case False
    then show ?thesis
      using h(1) v(1) hs vs hd vd
      by (simp add: format_tweet_def ebind_def subscript_def template_text_def is_home_side_def
          team_score_of_def opp_score_of_def opponent_of_def date_text_def TEAM_NICK_def sp Let_def del: take_append)
  qed
qed

lemma format_tweet_take:
  assumes "format_tweet game d tid = Inr (Some m)"
  shows "\<exists>t. m = take 280 t"
  using assms unfolding format_tweet_def ebind_def
  by (auto simp: Let_def simp del: take_append split: option.splits sum.splits jval.splits prod.splits if_splits)

lemma format_tweet_length:
  assumes "format_tweet game d tid = Inr (Some m)"
  shows "length m \<le> 280"
proof -
  from format_tweet_take[OF assms] obtain t where "m = take 280 t" by blast
  then show ?thesis by simp
qed

lemma template_yes:
  "opp_score_of G tid < team_score_of G tid \<Longrightarrow> prefix (u ''YES'') (take 280 (template_text G d tid))"
  unfolding template_text_def by (simp add: u_def prefix_def)

lemma template_no:
  "\<not> opp_score_of G tid < team_score_of G tid \<Longrightarrow> prefix (u ''NO'') (take 280 (template_text G d tid))
     \<and> \<not> prefix (u ''YES'') (take 280 (template_text G d tid))"
  unfolding template_text_def by (simp add: u_def prefix_def)

subsection \<open>Win or loss\<close>

text \<open>
  Claim C4. For every game record the message begins with \<open>YES\<close> exactly when the score
  of the resolved team is strictly greater than the opponent's score; with equal scores it
  begins with \<open>NO\<close>. The resolved team's score is the home score when the home team's id
  is the resolved id, and the visitor score otherwise.
\<close>

theorem format_tweet_win_iff:
  assumes "decode_game g = Some G"
  shows "\<exists>m. format_tweet (Some g) d (PInt tid) = Inr (Some m)
           \<and> (prefix (u ''YES'') m \<longleftrightarrow> opp_score_of G tid < team_score_of G tid)
           \<and> (team_score_of G tid = opp_score_of G tid \<longrightarrow> prefix (u ''NO'') m)"
proof -
  have m: "format_tweet (Some g) d (PInt tid) = Inr (Some (take 280 (template_text G d tid)))"
    by (rule format_tweet_record[OF assms])
  show ?thesis
  proof (cases "opp_score_of G tid < team_score_of G tid")
    case True
    with m template_yes[OF True, of d] show ?thesis by auto
  next
    case False
    with m template_no[OF False, of d] show ?thesis by auto
  qed
qed

lemma decode_home_win:
  "decode_game home_win =
     Some \<lparr>g_home_team = \<lparr>t_id = 25, t_full_name = u ''Oklahoma City Thunder'', t_name = u ''Thunder''\<rparr>,
           g_visitor_team = \<lparr>t_id = 8, t_full_name = u ''Denver Nuggets'', t_name = u ''Nuggets''\<rparr>,
           g_home_score = 120, g_visitor_score = 100, g_status = u ''Final''\<rparr>"
  by (simp add: decode_game_def home_win_def game_obj_def thunder_def nuggets_def team_obj_def u_def)

lemma decode_tied:
  "decode_game tied =
     Some \<lparr>g_home_team = \<lparr>t_id = 25, t_full_name = u ''Oklahoma City Thunder'', t_name = u ''Thunder''\<rparr>,
           g_visitor_team = \<lparr>t_id = 8, t_full_name = u ''Denver Nuggets'', t_name = u ''Nuggets''\<rparr>,
           g_home_score = 99, g_visitor_score = 99, g_status = u ''Final''\<rparr>"
  by (simp add: decode_game_def tied_def game_obj_def thunder_def nuggets_def team_obj_def u_def)

theorem format_tweet_win_iff_witness:
  "(\<exists>m. format_tweet (Some tied) jan15 (PInt 25) = Inr (Some m)
        \<and> \<not> prefix (u ''YES'') m \<and> prefix (u ''NO'') m)
   \<and> (\<exists>m. format_tweet (Some home_win) jan15 (PInt 25) = Inr (Some m) \<and> prefix (u ''YES'') m)"
  using format_tweet_win_iff[OF decode_tied, of jan15 25]
        format_tweet_win_iff[OF decode_home_win, of jan15 25]
  by (simp add: team_score_of_def opp_score_of_def is_home_side_def)

subsection \<open>Length of the message\<close>

text \<open>
  Claim C9. Whatever the game, the date and the team id, a message that \<open>format_tweet\<close>
  returns has at most 280 code points; and for a game record of the data model it does
  return a message.
\<close>

theorem format_tweet_at_most_280:
  "(format_tweet game d team_id = Inr (Some m) \<longrightarrow> length m \<le> 280)
   \<and> (is_game_record g \<longrightarrow>
        (\<exists>m'. format_tweet (Some g) d (PInt tid) = Inr (Some m') \<and> length m' \<le> 280))"
proof
  show "format_tweet game d team_id = Inr (Some m) \<longrightarrow> length m \<le> 280"
    by (auto dest: format_tweet_length)
next
  show "is_game_record g \<longrightarrow>
        (\<exists>m'. format_tweet (Some g) d (PInt tid) = Inr (Some m') \<and> length m' \<le> 280)"
  proof
    assume "is_game_record g"
    then obtain G where G: "decode_game g = Some G"
      by (auto simp: is_game_record_def)
    have "format_tweet (Some g) d (PInt tid) = Inr (Some (take 280 (template_text G d tid)))"
      by (rule format_tweet_record[OF G])
    then show "\<exists>m'. format_tweet (Some g) d (PInt tid) = Inr (Some m') \<and> length m' \<le> 280"
      by simp
  qed
qed

lemma decode_long_name_game:
  "decode_game long_name_game =
     Some \<lparr>g_home_team = \<lparr>t_id = 25, t_full_name = u ''Oklahoma City Thunder'', t_name = u ''Thunder''\<rparr>,
           g_visitor_team = \<lparr>t_id = 8, t_full_name = replicate 300 65, t_name = u ''Longs''\<rparr>,
           g_home_score = 120, g_visitor_score = 100, g_status = u ''Final''\<rparr>"
  by (simp add: decode_game_def long_name_game_def game_obj_def thunder_def long_name_team_def team_obj_def u_def)

lemma str_int_120: "str_int 120 = u ''120''"
  by (simp add: str_int_def digits.simps u_def)
lemma str_int_100: "str_int 100 = u ''100''"
  by (simp add: str_int_def digits.simps u_def)
lemma date_text_jan15: "date_text \<lparr>year = 2024, month = Jan, day = 15\<rparr> = u ''Jan 15, 2024''"
  by (simp add: date_text_def str_int_def digits.simps u_def)

lemma format_home_win:
  "format_tweet (Some home_win) jan15 (PInt 25) =
     Inr (Some (u ''YES'' @ nl @ nl @ u ''Jan 15, 2024'' @ nl @ u ''vs Denver Nuggets'' @ nl
                @ u ''Thunder 120 '' @ en_dash @ u '' 100 Nuggets''))"
  using format_tweet_record[OF decode_home_win, of jan15 25]
  by (simp add: template_text_def is_home_side_def team_score_of_def opp_score_of_def opponent_of_def
      jan15_def date_text_jan15 str_int_120 str_int_100 u_def nl_def en_dash_def)

theorem format_tweet_at_most_280_witness:
  "length (u ''YES'' @ nl @ nl @ u ''Jan 15, 2024'' @ nl @ u ''vs Denver Nuggets'' @ nl
           @ u ''Thunder 120 '' @ en_dash @ u '' 100 Nuggets'') \<le> 280
   \<and> is_game_record long_name_game
   \<and> (\<exists>m. format_tweet (Some long_name_game) jan15 (PInt 25) = Inr (Some m) \<and> length m \<le> 280)"
proof -
  have r: "is_game_record long_name_game"
    by (simp add: is_game_record_def decode_long_name_game)
  from format_tweet_at_most_280[where g = long_name_game and d = jan15 and tid = 25
         and game = "Some home_win" and team_id = "PInt 25", OF ] format_home_win r
  show ?thesis by blast
qed

subsection \<open>A team that is not the home side\<close>

text \<open>
  Claim C10. For every game record whose home team's id is not the resolved id, whether
  or not the visitor's id is, \<open>format_tweet\<close> returns a message: the visitor score is the
  team's score, the home team is the opponent, and the venue mark is \<open>@\<close>.
\<close>

theorem format_tweet_not_home:
  assumes "decode_game g = Some G" and "t_id (g_home_team G) \<noteq> tid"
  shows "format_tweet (Some g) d (PInt tid) =
           Inr (Some (take 280
             ((if g_home_score G < g_visitor_score G then u ''YES'' else u ''NO'') @ nl @ nl
              @ date_text d @ nl
              @ u ''@ '' @ t_full_name (g_home_team G) @ nl
              @ u ''Thunder '' @ str_int (g_visitor_score G) @ u '' '' @ en_dash @ u '' ''
              @ str_int (g_home_score G) @ u '' '' @ t_name (g_home_team G))))"
proof -
  have "template_text G d tid =
          (if g_home_score G < g_visitor_score G then u ''YES'' else u ''NO'') @ nl @ nl
              @ date_text d @ nl
              @ u ''@ '' @ t_full_name (g_home_team G) @ nl
              @ u ''Thunder '' @ str_int (g_visitor_score G) @ u '' '' @ en_dash @ u '' ''
              @ str_int (g_home_score G) @ u '' '' @ t_name (g_home_team G)"
    using assms(2)
    by (simp add: template_text_def is_home_side_def team_score_of_def opp_score_of_def opponent_of_def)
  with format_tweet_record[OF assms(1), of d tid] show ?thesis by simp
qed

lemma decode_away_loss:
  "decode_game away_loss =
     Some \<lparr>g_home_team = \<lparr>t_id = 8, t_full_name = u ''Denver Nuggets'', t_name = u ''Nuggets''\<rparr>,
           g_visitor_team = \<lparr>t_id = 25, t_full_name = u ''Oklahoma City Thunder'', t_name = u ''Thunder''\<rparr>,
           g_home_score = 108, g_visitor_score = 101, g_status = u ''Final''\<rparr>"
  by (simp add: decode_game_def away_loss_def game_obj_def thunder_def nuggets_def team_obj_def u_def)

lemma str_int_108: "str_int 108 = u ''108''"
  by (simp add: str_int_def digits.simps u_def)
lemma str_int_101: "str_int 101 = u ''101''"
  by (simp add: str_int_def digits.simps u_def)

theorem format_tweet_not_home_witness:
  "format_tweet (Some away_loss) \<lparr>year = 2024, month = Jan, day = 15\<rparr> (PInt 25) =
     Inr (Some (u ''NO'' @ nl @ nl @ u ''Jan 15, 2024'' @ nl @ u ''@ Denver Nuggets'' @ nl
                @ u ''Thunder 101 '' @ en_dash @ u '' 108 Nuggets''))
   \<and> format_tweet (Some away_loss) \<lparr>year = 2024, month = Jan, day = 15\<rparr> (PInt 77) =
     Inr (Some (u ''NO'' @ nl @ nl @ u ''Jan 15, 2024'' @ nl @ u ''@ Denver Nuggets'' @ nl
                @ u ''Thunder 101 '' @ en_dash @ u '' 108 Nuggets''))"
  using format_tweet_not_home[OF decode_away_loss, of 25 "\<lparr>year = 2024, month = Jan, day = 15\<rparr>"]
        format_tweet_not_home[OF decode_away_loss, of 77 "\<lparr>year = 2024, month = Jan, day = 15\<rparr>"]
  by (simp add: date_text_jan15 str_int_108 str_int_101 u_def nl_def en_dash_def)


subsection \<open>The text of the message\<close>

text \<open>
  Claim C1, amended. For a game record on 15 January 2024 whose home team has the resolved
  id 25, with home score 120 and visitor score 100, \<open>format_tweet\<close> returns the first 280
  code points of \<open>YES\<close>, an empty line, \<open>Jan 15, 2024\<close>, \<open>vs\<close> and the opponent's full name,
  and \<open>Thunder 120\<close>, an en dash, \<open>100\<close> and the opponent's short name. For every game record the
  message is the first 280 code points of a text that starts with \<open>YES\<close> when the team won
  and \<open>NO\<close> otherwise, goes on with the month's abbreviation, the day, a comma and the
  year, and then has \<open>vs\<close> before the opponent's full name when the team is the home side
  and \<open>@\<close> when it is not.
\<close>

theorem format_tweet_scenario:
  assumes "decode_game g = Some G"
  shows "(t_id (g_home_team G) = 25 \<and> g_home_score G = 120 \<and> g_visitor_score G = 100 \<longrightarrow>
            format_tweet (Some g) \<lparr>year = 2024, month = Jan, day = 15\<rparr> (PInt 25) =
              Inr (Some (take 280
                (u ''YES'' @ nl @ nl @ u ''Jan 15, 2024'' @ nl
                 @ u ''vs '' @ t_full_name (g_visitor_team G) @ nl
                 @ u ''Thunder 120 '' @ en_dash @ u '' 100 '' @ t_name (g_visitor_team G)))))
         \<and> (\<exists>rest. format_tweet (Some g) d (PInt tid) =
              Inr (Some (take 280
                ((if opp_score_of G tid < team_score_of G tid then u ''YES'' else u ''NO'') @ nl @ nl
                 @ strftime_b (month d) @ u '' '' @ str_int (int (day d)) @ u '', ''
                 @ str_int (int (year d)) @ nl
                 @ (if t_id (g_home_team G) = tid then u ''vs '' else u ''@ '')
                 @ t_full_name (opponent_of G tid) @ rest))))"
proof (intro conjI impI)
  assume a: "t_id (g_home_team G) = 25 \<and> g_home_score G = 120 \<and> g_visitor_score G = 100"
  have "template_text G \<lparr>year = 2024, month = Jan, day = 15\<rparr> 25 =
          u ''YES'' @ nl @ nl @ u ''Jan 15, 2024'' @ nl
          @ u ''vs '' @ t_full_name (g_visitor_team G) @ nl
          @ u ''Thunder 120 '' @ en_dash @ u '' 100 '' @ t_name (g_visitor_team G)"
    using a
    by (simp add: template_text_def is_home_side_def team_score_of_def opp_score_of_def
        opponent_of_def date_text_jan15 str_int_120 str_int_100 u_def)
  with format_tweet_record[OF assms, of "\<lparr>year = 2024, month = Jan, day = 15\<rparr>" 25]
  show "format_tweet (Some g) \<lparr>year = 2024, month = Jan, day = 15\<rparr> (PInt 25) =
              Inr (Some (take 280
                (u ''YES'' @ nl @ nl @ u ''Jan 15, 2024'' @ nl
                 @ u ''vs '' @ t_full_name (g_visitor_team G) @ nl
                 @ u ''Thunder 120 '' @ en_dash @ u '' 100 '' @ t_name (g_visitor_team G))))"
    by simp
next
  have "template_text G d tid =
          (if opp_score_of G tid < team_score_of G tid then u ''YES'' else u ''NO'') @ nl @ nl
                 @ strftime_b (month d) @ u '' '' @ str_int (int (day d)) @ u '', ''
                 @ str_int (int (year d)) @ nl
                 @ (if t_id (g_home_team G) = tid then u ''vs '' else u ''@ '')
                 @ t_full_name (opponent_of G tid)
                 @ (nl @ u ''Thunder '' @ str_int (team_score_of G tid) @ u '' '' @ en_dash @ u '' ''
                    @ str_int (opp_score_of G tid) @ u '' '' @ t_name (opponent_of G tid))"
    by (simp add: template_text_def is_home_side_def date_text_def)
  with format_tweet_record[OF assms, of d tid]
  show "\<exists>rest. format_tweet (Some g) d (PInt tid) =
              Inr (Some (take 280
                ((if opp_score_of G tid < team_score_of G tid then u ''YES'' else u ''NO'') @ nl @ nl
                 @ strftime_b (month d) @ u '' '' @ str_int (int (day d)) @ u '', ''
                 @ str_int (int (year d)) @ nl
                 @ (if t_id (g_home_team G) = tid then u ''vs '' else u ''@ '')
                 @ t_full_name (opponent_of G tid) @ rest)))"
    by (simp del: take_append) blast
qed

theorem format_tweet_scenario_witness:
  "format_tweet (Some home_win) \<lparr>year = 2024, month = Jan, day = 15\<rparr> (PInt 25) =
     Inr (Some (u ''YES'' @ nl @ nl @ u ''Jan 15, 2024'' @ nl @ u ''vs Denver Nuggets'' @ nl
                @ u ''Thunder 120 '' @ en_dash @ u '' 100 Nuggets''))"
  using format_tweet_scenario[OF decode_home_win]
  by (simp add: u_def nl_def en_dash_def)

text \<open>
  As first stated, C1 has the whole text returned. With an opponent whose full name has
  300 code points the text has 345, and the message stops inside the name.
\<close>

theorem format_tweet_scenario_counterexample:
  "decode_game long_name_game =
     Some \<lparr>g_home_team = \<lparr>t_id = 25, t_full_name = u ''Oklahoma City Thunder'', t_name = u ''Thunder''\<rparr>,
           g_visitor_team = \<lparr>t_id = 8, t_full_name = replicate 300 65, t_name = u ''Longs''\<rparr>,
           g_home_score = 120, g_visitor_score = 100, g_status = u ''Final''\<rparr>
   \<and> format_tweet (Some long_name_game) \<lparr>year = 2024, month = Jan, day = 15\<rparr> (PInt 25) =
       Inr (Some (u ''YES'' @ nl @ nl @ u ''Jan 15, 2024'' @ nl @ u ''vs '' @ replicate 259 65))
   \<and> format_tweet (Some long_name_game) \<lparr>year = 2024, month = Jan, day = 15\<rparr> (PInt 25) \<noteq>
       Inr (Some (u ''YES'' @ nl @ nl @ u ''Jan 15, 2024'' @ nl @ u ''vs '' @ replicate 300 65 @ nl
                  @ u ''Thunder 120 '' @ en_dash @ u '' 100 '' @ u ''Longs''))"
proof -
  have e: "format_tweet (Some long_name_game) \<lparr>year = 2024, month = Jan, day = 15\<rparr> (PInt 25) =
       Inr (Some (u ''YES'' @ nl @ nl @ u ''Jan 15, 2024'' @ nl @ u ''vs '' @ replicate 259 65))"
    using format_tweet_record[OF decode_long_name_game, of "\<lparr>year = 2024, month = Jan, day = 15\<rparr>" 25]
    by (simp add: template_text_def is_home_side_def team_score_of_def opp_score_of_def
        opponent_of_def date_text_jan15 str_int_120 str_int_100 u_def nl_def en_dash_def)
  have "length (u ''YES'' @ nl @ nl @ u ''Jan 15, 2024'' @ nl @ u ''vs '' @ replicate 259 65)
        \<noteq> length (u ''YES'' @ nl @ nl @ u ''Jan 15, 2024'' @ nl @ u ''vs '' @ replicate 300 65 @ nl
                  @ u ''Thunder 120 '' @ en_dash @ u '' 100 '' @ u ''Longs'')"
    by (simp add: u_def nl_def en_dash_def)
  then have "u ''YES'' @ nl @ nl @ u ''Jan 15, 2024'' @ nl @ u ''vs '' @ replicate 259 65
        \<noteq> u ''YES'' @ nl @ nl @ u ''Jan 15, 2024'' @ nl @ u ''vs '' @ replicate 300 65 @ nl
                  @ u ''Thunder 120 '' @ en_dash @ u '' 100 '' @ u ''Longs''"
    by metis
  with e decode_long_name_game show ?thesis by simp
qed

section \<open>Properties of the game fetcher\<close>

lemma completed_record:
  assumes "decode_game g = Some G"
  shows "completed g = Inr (qualifies G)"
proof -
  from decode_game_SomeD[OF assms] have
    hs: "map_of g (u ''home_team_score'') = Some (Val (PInt (g_home_score G)))" and
    vs: "map_of g (u ''visitor_team_score'') = Some (Val (PInt (g_visitor_score G)))" and
    st: "map_of g (u ''status'') = Some (Val (PStr (g_status G)))"
    by blast+
  show ?thesis
    by (simp add: completed_def get_or_def hs vs st ebind_def qualifies_def)
qed

lemma first_completed_records:
  assumes "list_all is_game_record data"
  shows "first_completed data = Inr (find record_qualifies data)"
  using assms
proof (induction data)
  case Nil
  then show ?case by simp
next
  case (Cons g gs)
  from Cons.prems obtain G where G: "decode_game g = Some G"
    by (auto simp: is_game_record_def)
  from Cons have ih: "first_completed gs = Inr (find record_qualifies gs)"
    by simp
  have rq: "record_qualifies g = qualifies G"
    by (simp add: record_qualifies_def G)
  show ?case
    by (simp add: completed_record[OF G] ebind_def rq ih)
qed

lemma fetch_game_for_records:
  assumes "games_api w team_id d = Inr (g0 # rest)"
    and "list_all is_game_record (g0 # rest)"
  shows "fst (fetch_game_for team_id d w) =
           Inr (Some (case find record_qualifies (g0 # rest) of Some g \<Rightarrow> g | None \<Rightarrow> g0))"
proof -
  have fc: "first_completed (g0 # rest) = Inr (find record_qualifies (g0 # rest))"
    by (rule first_completed_records[OF assms(2)])
  show ?thesis
    using assms(1) unfolding fetch_game_for_def Let_def
    by (simp only: fc sum.case list.case ebind_def fst_conv split: option.split) simp
qed

lemma lower_Final: "lower (u ''Final'') = u ''final''"
  by (simp add: lower_def lower_cp_def u_def)

lemma decode_in_progress:
  "decode_game in_progress =
     Some \<lparr>g_home_team = \<lparr>t_id = 25, t_full_name = u ''Oklahoma City Thunder'', t_name = u ''Thunder''\<rparr>,
           g_visitor_team = \<lparr>t_id = 8, t_full_name = u ''Denver Nuggets'', t_name = u ''Nuggets''\<rparr>,
           g_home_score = 61, g_visitor_score = 58, g_status = u ''3rd Qtr''\<rparr>"
  by (simp add: decode_game_def in_progress_def game_obj_def thunder_def nuggets_def team_obj_def u_def)

lemma decode_not_started:
  "decode_game not_started =
     Some \<lparr>g_home_team = \<lparr>t_id = 25, t_full_name = u ''Oklahoma City Thunder'', t_name = u ''Thunder''\<rparr>,
           g_visitor_team = \<lparr>t_id = 8, t_full_name = u ''Denver Nuggets'', t_name = u ''Nuggets''\<rparr>,
           g_home_score = 0, g_visitor_score = 0, g_status = u ''7:00 pm ET''\<rparr>"
  by (simp add: decode_game_def not_started_def game_obj_def thunder_def nuggets_def team_obj_def u_def)

lemma qualifies_home_win: "record_qualifies home_win"
  by (simp add: record_qualifies_def decode_home_win qualifies_def lower_Final)

lemma qualifies_in_progress: "record_qualifies in_progress"
  by (simp add: record_qualifies_def decode_in_progress qualifies_def)

lemma not_qualifies_not_started: "\<not> record_qualifies not_started"
  by (simp add: record_qualifies_def decode_not_started qualifies_def lower_def lower_cp_def u_def)

lemma sample_records:
  "is_game_record home_win" "is_game_record in_progress" "is_game_record not_started"
  by (simp_all add: is_game_record_def decode_home_win decode_in_progress decode_not_started)

lemma in_progress_not_home_win: "in_progress \<noteq> home_win"
  by (simp add: in_progress_def home_win_def game_obj_def u_def)

text \<open>
  Claim C2. When the games endpoint answers with a non-empty list of game records,
  \<open>fetch_game_for\<close> returns the first record of the list whose lowered status is \<open>final\<close>,
  \<open>final/ot\<close> or \<open>finished\<close>, or whose two scores add up to more than zero; when the list has
  no such record it returns the first record of the list.
\<close>

theorem fetch_game_for_first_completed:
  assumes "games_api w team_id d = Inr data" and "data \<noteq> []"
    and "list_all is_game_record data"
  shows "fst (fetch_game_for team_id d w) =
           Inr (Some (case find record_qualifies data of Some g \<Rightarrow> g | None \<Rightarrow> hd data))"
proof -
  from assms(2) obtain g0 rest where data: "data = g0 # rest"
    by (cases data) auto
  have "fst (fetch_game_for team_id d w) =
          Inr (Some (case find record_qualifies (g0 # rest) of Some g \<Rightarrow> g | None \<Rightarrow> g0))"
    using fetch_game_for_records[of w team_id d g0 rest] assms(1,3) data by blast
  then show ?thesis
    unfolding data by (simp only: list.sel)
qed

theorem fetch_game_for_first_completed_witness:
  "fst (fetch_game_for (PInt 25) jan15
          (quiet_world\<lparr>games_api := (\<lambda>_ _. Inr [not_started, in_progress, home_win])\<rparr>)) =
     Inr (Some in_progress)
   \<and> fst (fetch_game_for (PInt 25) jan15
          (quiet_world\<lparr>games_api := (\<lambda>_ _. Inr [not_started])\<rparr>)) =
     Inr (Some not_started)"
  using fetch_game_for_first_completed[of
          "quiet_world\<lparr>games_api := (\<lambda>_ _. Inr [not_started, in_progress, home_win])\<rparr>"
          "PInt 25" jan15 "[not_started, in_progress, home_win]"]
        fetch_game_for_first_completed[of
          "quiet_world\<lparr>games_api := (\<lambda>_ _. Inr [not_started])\<rparr>"
          "PInt 25" jan15 "[not_started]"]
  by (simp add: sample_records qualifies_home_win qualifies_in_progress not_qualifies_not_started)

text \<open>
  Claim C3, amended. In a list of game records, a record with the status \<open>Final\<close> is the
  one \<open>fetch_game_for\<close> returns when no record before it has a completed status or a
  positive sum of scores; when a record before it has one of the two, the first such record
  is returned instead.
\<close>

theorem fetch_game_for_final:
  assumes "games_api w team_id d = Inr (pre @ g # post)"
    and "list_all is_game_record (pre @ g # post)"
    and "decode_game g = Some G" and "g_status G = u ''Final''"
  shows "fst (fetch_game_for team_id d w) =
           Inr (Some (case find record_qualifies pre of Some x \<Rightarrow> x | None \<Rightarrow> g))"
proof -
  have q: "record_qualifies g"
    using assms(3,4) by (simp add: record_qualifies_def qualifies_def lower_Final)
  have f: "find record_qualifies (pre @ g # post) =
             (case find record_qualifies pre of Some x \<Rightarrow> Some x | None \<Rightarrow> Some g)"
    using q by (induction pre) auto
  obtain g0 rest where data: "pre @ g # post = g0 # rest"
    by (cases "pre @ g # post") auto
  from fetch_game_for_records[of w team_id d g0 rest] assms(1,2) data
  have "fst (fetch_game_for team_id d w) =
          Inr (Some (case find record_qualifies (pre @ g # post) of Some x \<Rightarrow> x | None \<Rightarrow> g0))"
    by simp
  then show ?thesis
    by (simp add: f split: option.split)
qed

theorem fetch_game_for_final_witness:
  "fst (fetch_game_for (PInt 25) jan15
          (quiet_world\<lparr>games_api := (\<lambda>_ _. Inr [not_started, home_win, in_progress])\<rparr>)) =
     Inr (Some home_win)"
  using fetch_game_for_final[of
          "quiet_world\<lparr>games_api := (\<lambda>_ _. Inr [not_started, home_win, in_progress])\<rparr>"
          "PInt 25" jan15 "[not_started]" home_win "[in_progress]", OF _ _ decode_home_win]
  by (simp add: sample_records not_qualifies_not_started)

text \<open>
  As first stated, C3 has the record with the status \<open>Final\<close> returned wherever it is. In
  the list below it is the only one with that status; the record before it is in its third
  quarter with 61 and 58 points, and that record is returned.
\<close>

theorem fetch_game_for_final_counterexample:
  "list_all is_game_record [in_progress, home_win]
   \<and> filter (\<lambda>g. map_of g (u ''status'') = Some (Val (PStr (u ''Final'')))) [in_progress, home_win]
       = [home_win]
   \<and> fst (fetch_game_for (PInt 25) jan15
            (quiet_world\<lparr>games_api := (\<lambda>_ _. Inr [in_progress, home_win])\<rparr>)) =
       Inr (Some in_progress)
   \<and> in_progress \<noteq> home_win"
proof -
  have "fst (fetch_game_for (PInt 25) jan15
            (quiet_world\<lparr>games_api := (\<lambda>_ _. Inr [in_progress, home_win])\<rparr>)) =
       Inr (Some in_progress)"
    using fetch_game_for_records[of
            "quiet_world\<lparr>games_api := (\<lambda>_ _. Inr [in_progress, home_win])\<rparr>"
            "PInt 25" jan15 in_progress "[home_win]"]
    by (simp add: sample_records qualifies_in_progress)
  moreover have "filter (\<lambda>g. map_of g (u ''status'') = Some (Val (PStr (u ''Final''))))
                   [in_progress, home_win] = [home_win]"
    by (simp add: in_progress_def home_win_def game_obj_def u_def)
  ultimately show ?thesis
    by (simp add: sample_records in_progress_not_home_win)
qed

section \<open>Properties of the resolvers, the publisher and the orchestrator\<close>

lemma py_eq_PStr: "py_eq v (PStr s) \<longleftrightarrow> v = PStr s"
  by (cases v) auto

lemma scan_condition:
  "(py_eq (team_get t (u ''abbreviation'')) (PStr TEAM_ABBR)
     \<or> py_eq (team_get t (u ''full_name'')) (PStr TEAM_CITY_FULL)) = team_matches t"
  by (auto simp: py_eq_PStr team_get_def team_matches_def TEAM_ABBR_def TEAM_CITY_FULL_def
      split: option.splits)

lemma fail_message:
  "u ''Could not resolve team_id for '' @ TEAM_CITY_FULL @ u '' / '' @ TEAM_ABBR =
   u ''Could not resolve team_id for Oklahoma City Thunder / OKC''"
  by (simp add: TEAM_CITY_FULL_def TEAM_ABBR_def u_def)

lemma scan_teams_found:
  "find team_matches data = Some t \<Longrightarrow> scan_teams data = team_item t (u ''id'')"
proof (induction data)
  case Nil
  then show ?case by simp
next
  case (Cons a data)
  then show ?case
    by (cases "team_matches a") (simp_all add: scan_condition)
qed

lemma scan_teams_none:
  "find team_matches data = None \<Longrightarrow>
     scan_teams data = Inl (SystemExit (u ''Could not resolve team_id for Oklahoma City Thunder / OKC'') 1)"
proof (induction data)
  case Nil
  then show ?case by (simp add: fail_def fail_message)
next
  case (Cons a data)
  then show ?case
    by (cases "team_matches a") (simp_all add: scan_condition)
qed

lemma override_branch:
  assumes "int_of_str w [] = None"
  shows "(case TEAM_ID w of
            Some env_id \<Rightarrow> if truthy (Some env_id) then int_of_str w env_id else None
          | None \<Rightarrow> None) = team_id_override w"
  using assms by (auto simp: team_id_override_def split: option.splits)


text \<open>
  Claim C5. When \<open>TEAM_ID\<close> parses as an integer, \<open>resolve_team_id\<close> returns that integer
  and sends no request. When \<open>TEAM_ID\<close> is absent or does not parse, the team list is
  requested and scanned in order: the id of the first record whose abbreviation is \<open>OKC\<close>
  or whose full name is \<open>Oklahoma City Thunder\<close> is returned, and when no record matches
  the run ends with the message of \<open>fail\<close> and exit status 1. The runtime's \<open>int\<close> rejects
  the empty text.
\<close>

theorem resolve_team_id_spec:
  assumes "int_of_str w [] = None"
  shows "(team_id_override w = Some n \<longrightarrow> resolve_team_id w = (Inr (PInt n), w))
       \<and> (team_id_override w = None \<and> teams_api w = Inr data
            \<and> find team_matches data = Some t \<and> map_of t (u ''id'') = Some v \<longrightarrow>
              resolve_team_id w = (Inr v, w\<lparr>calls := calls w @ [GetTeams]\<rparr>))
       \<and> (team_id_override w = None \<and> teams_api w = Inr data
            \<and> find team_matches data = None \<longrightarrow>
              resolve_team_id w =
                (Inl (SystemExit (u ''Could not resolve team_id for Oklahoma City Thunder / OKC'') 1),
                 w\<lparr>calls := calls w @ [GetTeams]\<rparr>)
              \<and> (\<forall>d. chicago_yesterday_date w = Inr d \<longrightarrow> exit_status (fst (main w)) = 1))"
proof (intro conjI impI)
  assume "team_id_override w = Some n"
  then show "resolve_team_id w = (Inr (PInt n), w)"
    by (simp add: resolve_team_id_def override_branch[OF assms])
next
  assume a: "team_id_override w = None \<and> teams_api w = Inr data
            \<and> find team_matches data = Some t \<and> map_of t (u ''id'') = Some v"
  then have "scan_teams data = Inr v"
    by (simp add: scan_teams_found team_item_def)
  with a show "resolve_team_id w = (Inr v, w\<lparr>calls := calls w @ [GetTeams]\<rparr>)"
    by (simp add: resolve_team_id_def override_branch[OF assms])
next
  assume a: "team_id_override w = None \<and> teams_api w = Inr data \<and> find team_matches data = None"
  then have "scan_teams data =
      Inl (SystemExit (u ''Could not resolve team_id for Oklahoma City Thunder / OKC'') 1)"
    by (simp add: scan_teams_none)
  with a show r: "resolve_team_id w =
                (Inl (SystemExit (u ''Could not resolve team_id for Oklahoma City Thunder / OKC'') 1),
                 w\<lparr>calls := calls w @ [GetTeams]\<rparr>)"
    by (simp add: resolve_team_id_def override_branch[OF assms])
  show "\<forall>d. chicago_yesterday_date w = Inr d \<longrightarrow> exit_status (fst (main w)) = 1"
    by (simp add: main_def r)
qed


lemma find_sample_teams: "find team_matches [nuggets, thunder] = Some thunder"
  by (simp add: team_matches_def nuggets_def thunder_def team_obj_def u_def)

lemma find_no_team: "find team_matches [nuggets] = None"
  by (simp add: team_matches_def nuggets_def team_obj_def u_def)

lemma thunder_id: "map_of thunder (u ''id'') = Some (PInt 25)"
  by (simp add: thunder_def team_obj_def u_def)

lemma int_25_simps: "int_25 [] = None" "int_25 (u ''25'') = Some 25" "int_25 (u ''abc'') = None"
  by (simp_all add: int_25_def u_def)

theorem resolve_team_id_spec_witness:
  "resolve_team_id (quiet_world\<lparr>TEAM_ID := Some (u ''25'')\<rparr>) =
     (Inr (PInt 25), quiet_world\<lparr>TEAM_ID := Some (u ''25'')\<rparr>)
   \<and> resolve_team_id (quiet_world\<lparr>TEAM_ID := Some (u ''abc'')\<rparr>) =
     (Inr (PInt 25), quiet_world\<lparr>TEAM_ID := Some (u ''abc''), calls := [GetTeams]\<rparr>)
   \<and> resolve_team_id (quiet_world\<lparr>teams_api := Inr [nuggets]\<rparr>) =
     (Inl (SystemExit (u ''Could not resolve team_id for Oklahoma City Thunder / OKC'') 1),
      quiet_world\<lparr>teams_api := Inr [nuggets], calls := [GetTeams]\<rparr>)"
  using resolve_team_id_spec[of "quiet_world\<lparr>TEAM_ID := Some (u ''25'')\<rparr>" 25]
        resolve_team_id_spec[of "quiet_world\<lparr>TEAM_ID := Some (u ''abc'')\<rparr>" _
           "[nuggets, thunder]" thunder "PInt 25"]
        resolve_team_id_spec[of "quiet_world\<lparr>teams_api := Inr [nuggets]\<rparr>" _ "[nuggets]"]
  by (simp add: quiet_world_def team_id_override_def int_25_simps find_sample_teams find_no_team
      thunder_id del: find.simps)

lemma div_Suc_4: "Suc n div 4 = n div 4 + (if Suc n mod 4 = 0 then 1 else 0)"
  by (simp add: div_Suc)

lemma div_Suc_100: "Suc n div 100 = n div 100 + (if Suc n mod 100 = 0 then 1 else 0)"
  by (simp add: div_Suc)

lemma div_Suc_400: "Suc n div 400 = n div 400 + (if Suc n mod 400 = 0 then 1 else 0)"
  by (simp add: div_Suc)

lemma div_100_le_4: "(n::nat) div 100 \<le> n div 4"
  by (rule div_le_mono2) simp_all

lemma mod_100_4: "(m::nat) mod 100 = 0 \<Longrightarrow> m mod 4 = 0"
proof -
  assume "m mod 100 = 0"
  then have "100 dvd m" by (simp add: dvd_eq_mod_eq_0)
  moreover have "(4::nat) dvd 100" by simp
  ultimately have "4 dvd m" by (rule dvd_trans[rotated])
  then show ?thesis by (simp add: dvd_eq_mod_eq_0)
qed

lemma mod_400_100: "(m::nat) mod 400 = 0 \<Longrightarrow> m mod 100 = 0"
proof -
  assume "m mod 400 = 0"
  then have "400 dvd m" by (simp add: dvd_eq_mod_eq_0)
  moreover have "(100::nat) dvd 400" by simp
  ultimately have "100 dvd m" by (rule dvd_trans[rotated])
  then show ?thesis by (simp add: dvd_eq_mod_eq_0)
qed

lemma year_step_count:
  fixes A B C n :: nat
  assumes "B \<le> A" and "p100 \<longrightarrow> p4" and "p400 \<longrightarrow> p100"
  shows "Suc n * 365 + (A + (if p4 then 1 else 0)) - (B + (if p100 then 1 else 0))
           + (C + (if p400 then 1 else 0))
         = n * 365 + A - B + C + (if p4 \<and> (\<not> p100 \<or> p400) then 366 else 365)"
  using assms by (cases p4; cases p100; cases p400) simp_all


lemma force_branch:
  assumes "fromisoformat w [] = None"
  shows "(case FORCE_DATE w of
            Some force \<Rightarrow> if truthy (Some force) then fromisoformat w force else None
          | None \<Rightarrow> None) = force_date_override w"
  using assms by (auto simp: force_date_override_def split: option.splits)

lemma days_before_month_step:
  assumes "m \<noteq> Jan"
  shows "days_before_month y m =
           days_before_month y (prev_month m) + days_in_month y (prev_month m)"
  using assms by (cases m) (simp_all add: days_before_month_def)

lemma days_before_year_step:
  assumes "1 < y"
  shows "days_before_year y = days_before_year (y - 1) + (if leap_year (y - 1) then 366 else 365)"
proof -
  obtain n where y: "y = Suc (Suc n)"
    using assms by (cases y) (auto simp: gr0_conv_Suc)
  have "days_before_year (Suc (Suc n)) =
          Suc n * 365 + (n div 4 + (if Suc n mod 4 = 0 then 1 else 0))
            - (n div 100 + (if Suc n mod 100 = 0 then 1 else 0))
            + (n div 400 + (if Suc n mod 400 = 0 then 1 else 0))"
    unfolding days_before_year_def Let_def diff_Suc_1
    by (simp only: div_Suc_4[symmetric] div_Suc_100[symmetric] div_Suc_400[symmetric])
  also have "\<dots> = n * 365 + n div 4 - n div 100 + n div 400
                  + (if Suc n mod 4 = 0 \<and> (\<not> Suc n mod 100 = 0 \<or> Suc n mod 400 = 0)
                     then 366 else 365)"
    by (rule year_step_count) (auto intro: div_100_le_4 mod_100_4 mod_400_100)
  also have "\<dots> = days_before_year (Suc n) + (if leap_year (Suc n) then 366 else 365)"
    unfolding days_before_year_def Let_def diff_Suc_1 leap_year_def by (rule refl)
  finally show ?thesis
    unfolding y by simp
qed


lemma day_before_ordinal:
  assumes "valid_date d" and "d \<noteq> date_min"
  shows "\<exists>d'. day_before d = Inr d' \<and> valid_date d' \<and> toordinal d' + 1 = toordinal d"
proof (cases "1 < day d")
  case True
  have "day_before d = Inr (d\<lparr>day := day d - 1\<rparr>)"
    using True by (simp add: day_before_def)
  moreover have "valid_date (d\<lparr>day := day d - 1\<rparr>)"
    using True assms(1) by (simp add: valid_date_def) arith
  moreover have "toordinal (d\<lparr>day := day d - 1\<rparr>) + 1 = toordinal d"
    using True by (simp add: toordinal_def)
  ultimately show ?thesis by blast
next
  case False
  with assms(1) have d1: "day d = 1"
    by (simp add: valid_date_def)
  show ?thesis
  proof (cases "month d = Jan")
    case False
    let ?p = "d\<lparr>month := prev_month (month d), day := days_in_month (year d) (prev_month (month d))\<rparr>"
    have pos: "1 \<le> days_in_month (year d) (prev_month (month d))"
      by (cases "month d") simp_all
    have "day_before d = Inr ?p"
      using False d1 by (simp add: day_before_def)
    moreover have "valid_date ?p"
      using assms(1) pos by (simp add: valid_date_def)
    moreover have "toordinal ?p + 1 = toordinal d"
      using d1 days_before_month_step[OF False, of "year d"] by (simp add: toordinal_def)
    ultimately show ?thesis by blast
  next
    case True
    have "year d \<noteq> 1"
    proof
      assume "year d = 1"
      with True d1 have "d = date_min"
        by (simp add: date_min_def)
      with assms(2) show False by simp
    qed
    with assms(1) have y: "1 < year d"
      by (simp add: valid_date_def)
    let ?p = "\<lparr>year = year d - 1, month = Dec, day = 31\<rparr>"
    have "day_before d = Inr ?p"
      using True d1 y by (simp add: day_before_def)
    moreover have "valid_date ?p"
      using assms(1) y by (simp add: valid_date_def) arith
    moreover have "toordinal ?p + 1 = toordinal d"
      using True d1 days_before_year_step[OF y]
      by (simp add: toordinal_def days_before_month_def)
    ultimately show ?thesis by blast
  qed
qed

lemma day_before_date_min: "day_before date_min = Inl OverflowError"
  by (simp add: day_before_def date_min_def)

lemma default_branch:
  assumes "fromisoformat w [] = None" and "force_date_override w = None"
  shows "chicago_yesterday_date w =
           (if zone_db w (u ''America/Chicago'') then day_before (on_date (clock_reading w))
            else Inl ZoneInfoNotFoundError)"
proof -
  have "chicago_yesterday_date w =
          ebind (ZoneInfo w (u ''America/Chicago'')) (\<lambda>tz.
            ebind (minus_one_day (now_in w tz)) (\<lambda>yday_ct. Inr (on_date yday_ct)))"
    unfolding chicago_yesterday_date_def force_branch[OF assms(1)] assms(2) Let_def
    by simp
  then show ?thesis
    by (simp add: ZoneInfo_def ebind_def minus_one_day_def clock_reading_def split: sum.splits)
qed


text \<open>
  Claim C6, amended. When \<open>FORCE_DATE\<close> parses as a date, \<open>chicago_yesterday_date\<close> returns
  that date whatever the clock reads and whatever zones the runtime has. When \<open>FORCE_DATE\<close>
  is absent, empty or does not parse, the zone \<open>America/Chicago\<close> is looked up and the
  result is the date of the clock reading there less exactly 24 hours: the valid date whose
  day number is one less. The call fails in two cases only, both without a parsed
  override: with \<open>ZoneInfoNotFoundError\<close> when the runtime does not have the zone, and
  with \<open>OverflowError\<close> when the clock reads the first day the date type has. The
  runtime's \<open>date.fromisoformat\<close> rejects the empty text.
\<close>

theorem chicago_yesterday_date_spec:
  assumes "fromisoformat w [] = None"
  shows "(force_date_override w = Some d \<longrightarrow>
            (\<forall>z t. chicago_yesterday_date (w\<lparr>zone_db := z, now_in := t\<rparr>) = Inr d))
       \<and> (force_date_override w = None \<and> zone_db w (u ''America/Chicago'')
            \<and> valid_date (on_date (clock_reading w)) \<and> on_date (clock_reading w) \<noteq> date_min \<longrightarrow>
            (\<exists>d'. chicago_yesterday_date w = Inr d' \<and> valid_date d'
                  \<and> toordinal d' + 1 = toordinal (on_date (clock_reading w))
                  \<and> wall_clock \<lparr>on_date = d', time_of_day = time_of_day (clock_reading w)\<rparr> + day_micros
                      = wall_clock (clock_reading w)))
       \<and> (force_date_override w = None \<and> \<not> zone_db w (u ''America/Chicago'') \<longrightarrow>
            chicago_yesterday_date w = Inl ZoneInfoNotFoundError)
       \<and> (force_date_override w = None \<and> zone_db w (u ''America/Chicago'')
            \<and> on_date (clock_reading w) = date_min \<longrightarrow>
            chicago_yesterday_date w = Inl OverflowError)"
proof (intro conjI impI allI)
  fix z t
  assume a: "force_date_override w = Some d"
  let ?w = "w\<lparr>zone_db := z, now_in := t\<rparr>"
  have e2: "fromisoformat ?w = fromisoformat w"
    by simp
  have e: "fromisoformat ?w [] = None"
    unfolding e2 by (rule assms)
  have "force_date_override ?w = force_date_override w"
    unfolding force_date_override_def e2 by simp
  with a have "force_date_override ?w = Some d"
    by simp
  then show "chicago_yesterday_date ?w = Inr d"
    by (simp only: chicago_yesterday_date_def force_branch[OF e] option.case)
next
  assume a: "force_date_override w = None \<and> zone_db w (u ''America/Chicago'')
            \<and> valid_date (on_date (clock_reading w)) \<and> on_date (clock_reading w) \<noteq> date_min"
  then obtain d' where d': "day_before (on_date (clock_reading w)) = Inr d'" "valid_date d'"
      "toordinal d' + 1 = toordinal (on_date (clock_reading w))"
    using day_before_ordinal[of "on_date (clock_reading w)"] by blast
  have r: "chicago_yesterday_date w = Inr d'"
    using a d'(1) by (simp add: default_branch[OF assms])
  have "wall_clock \<lparr>on_date = d', time_of_day = time_of_day (clock_reading w)\<rparr> + day_micros
          = (toordinal d' + 1) * day_micros + time_of_day (clock_reading w)"
    by (simp add: wall_clock_def)
  also have "\<dots> = wall_clock (clock_reading w)"
    unfolding d'(3) by (simp add: wall_clock_def)
  finally show "\<exists>d'. chicago_yesterday_date w = Inr d' \<and> valid_date d'
                  \<and> toordinal d' + 1 = toordinal (on_date (clock_reading w))
                  \<and> wall_clock \<lparr>on_date = d', time_of_day = time_of_day (clock_reading w)\<rparr> + day_micros
                      = wall_clock (clock_reading w)"
    using r d'(2,3) by blast
next
  assume "force_date_override w = None \<and> \<not> zone_db w (u ''America/Chicago'')"
  then show "chicago_yesterday_date w = Inl ZoneInfoNotFoundError"
    by (simp add: default_branch[OF assms])
next
  assume "force_date_override w = None \<and> zone_db w (u ''America/Chicago'')
            \<and> on_date (clock_reading w) = date_min"
  then show "chicago_yesterday_date w = Inl OverflowError"
    by (simp add: default_branch[OF assms] day_before_date_min)
qed

lemma iso_jan15_simps:
  "iso_jan15 [] = None" "iso_jan15 (u ''2024-01-15'') = Some jan15" "iso_jan15 (u ''15/01/2024'') = None"
  by (simp_all add: iso_jan15_def u_def)

lemma sample_world_parsers:
  "fromisoformat quiet_world = iso_jan15" "fromisoformat no_zone_world = iso_jan15"
  "fromisoformat year_one_world = iso_jan15"
  by (simp_all add: quiet_world_def no_zone_world_def year_one_world_def)

lemma sample_world_clocks:
  "clock_reading (quiet_world\<lparr>FORCE_DATE := f\<rparr>) =
     \<lparr>on_date = \<lparr>year = 2024, month = Mar, day = 1\<rparr>, time_of_day = 0\<rparr>"
  "clock_reading year_one_world = \<lparr>on_date = date_min, time_of_day = 0\<rparr>"
  by (simp_all add: clock_reading_def quiet_world_def year_one_world_def)

lemma sample_world_zones:
  "zone_db (quiet_world\<lparr>FORCE_DATE := f\<rparr>) (u ''America/Chicago'')"
  "zone_db year_one_world (u ''America/Chicago'')"
  "\<not> zone_db no_zone_world (u ''America/Chicago'')"
  by (simp_all add: quiet_world_def year_one_world_def no_zone_world_def)

lemma sample_world_overrides:
  "force_date_override (quiet_world\<lparr>FORCE_DATE := Some (u ''2024-01-15'')\<rparr>) = Some jan15"
  "force_date_override (quiet_world\<lparr>FORCE_DATE := Some (u ''15/01/2024'')\<rparr>) = None"
  "force_date_override no_zone_world = None"
  "force_date_override year_one_world = None"
  by (simp_all add: force_date_override_def quiet_world_def no_zone_world_def year_one_world_def
      iso_jan15_simps)

lemma march_first: "valid_date \<lparr>year = 2024, month = Mar, day = 1\<rparr>"
  "\<lparr>year = 2024, month = Mar, day = 1\<rparr> \<noteq> date_min"
  by (simp_all add: valid_date_def date_min_def)

theorem chicago_yesterday_date_spec_witness:
  "chicago_yesterday_date
      (quiet_world\<lparr>FORCE_DATE := Some (u ''2024-01-15''), zone_db := (\<lambda>key. False),
                   now_in := (\<lambda>tz. \<lparr>on_date = date_min, time_of_day = 0\<rparr>)\<rparr>) = Inr jan15
   \<and> (\<exists>d'. chicago_yesterday_date (quiet_world\<lparr>FORCE_DATE := Some (u ''15/01/2024'')\<rparr>) = Inr d'
          \<and> valid_date d' \<and> toordinal d' + 1 = toordinal \<lparr>year = 2024, month = Mar, day = 1\<rparr>)
   \<and> chicago_yesterday_date no_zone_world = Inl ZoneInfoNotFoundError
   \<and> chicago_yesterday_date year_one_world = Inl OverflowError"
proof -
  have p: "fromisoformat (quiet_world\<lparr>FORCE_DATE := f\<rparr>) [] = None" for f
    by (simp add: quiet_world_def iso_jan15_simps)
  have q: "fromisoformat no_zone_world [] = None" "fromisoformat year_one_world [] = None"
    by (simp_all add: sample_world_parsers iso_jan15_simps)
  have "chicago_yesterday_date
      (quiet_world\<lparr>FORCE_DATE := Some (u ''2024-01-15''), zone_db := (\<lambda>key. False),
                   now_in := (\<lambda>tz. \<lparr>on_date = date_min, time_of_day = 0\<rparr>)\<rparr>) = Inr jan15"
    using chicago_yesterday_date_spec[OF p, of "Some (u ''2024-01-15'')" jan15]
    by (simp add: sample_world_overrides)
  moreover have "\<exists>d'. chicago_yesterday_date (quiet_world\<lparr>FORCE_DATE := Some (u ''15/01/2024'')\<rparr>) = Inr d'
          \<and> valid_date d' \<and> toordinal d' + 1 = toordinal \<lparr>year = 2024, month = Mar, day = 1\<rparr>"
  proof -
    let ?w = "quiet_world\<lparr>FORCE_DATE := Some (u ''15/01/2024'')\<rparr>"
    have c: "on_date (clock_reading ?w) = \<lparr>year = 2024, month = Mar, day = 1\<rparr>"
      by (simp only: sample_world_clocks datetime.simps)
    have h: "force_date_override ?w = None \<and> zone_db ?w (u ''America/Chicago'')
             \<and> valid_date (on_date (clock_reading ?w)) \<and> on_date (clock_reading ?w) \<noteq> date_min"
      unfolding c
      by (intro conjI sample_world_overrides sample_world_zones march_first)
    from chicago_yesterday_date_spec[OF p, of "Some (u ''15/01/2024'')"] h
    show ?thesis
      unfolding c by blast
  qed
  moreover have "chicago_yesterday_date no_zone_world = Inl ZoneInfoNotFoundError"
    using chicago_yesterday_date_spec[OF q(1)]
    by (simp add: sample_world_overrides sample_world_zones)
  moreover have "chicago_yesterday_date year_one_world = Inl OverflowError"
    using chicago_yesterday_date_spec[OF q(2)]
    by (simp add: sample_world_overrides sample_world_zones sample_world_clocks)
  ultimately show ?thesis by blast
qed

text \<open>
  As first stated, C6 has a date produced always. In a run with no \<open>FORCE_DATE\<close> on a
  runtime whose time-zone database lacks \<open>America/Chicago\<close>, the lookup raises and nothing
  catches it.
\<close>

theorem chicago_yesterday_date_spec_counterexample:
  "FORCE_DATE no_zone_world = None
   \<and> chicago_yesterday_date no_zone_world = Inl ZoneInfoNotFoundError"
  by (simp add: chicago_yesterday_date_def no_zone_world_def quiet_world_def ZoneInfo_def ebind_def)

text \<open>
  Claim C8. For every text, when one of the four credentials is missing, \<open>post_to_x\<close>
  ends the run with its message and exit status 1, and has sent no request.
\<close>

theorem post_to_x_missing_credentials:
  assumes "API_KEY w = None \<or> API_SECRET w = None \<or> ACCESS_TOKEN w = None \<or> ACCESS_SECRET w = None"
  shows "post_to_x status_text w =
           (Inl (SystemExit (u ''Missing one or more Twitter credentials in environment variables.'') 1), w)
         \<and> exit_status (fst (post_to_x status_text w)) = 1
         \<and> calls (snd (post_to_x status_text w)) = calls w"
  using assms by (auto simp: post_to_x_def fail_def)

theorem post_to_x_missing_credentials_witness:
  "post_to_x (u ''YES'') quiet_world =
     (Inl (SystemExit (u ''Missing one or more Twitter credentials in environment variables.'') 1),
      quiet_world)
   \<and> calls (snd (post_to_x (u ''YES'') quiet_world)) = []"
  using post_to_x_missing_credentials[of quiet_world "u ''YES''"]
  by (simp add: quiet_world_def)







end
